theory Spec2Isabelle
  imports Complex_Main
begin

section \<open>Values of type double\<close>

text \<open>
  The program computes with C \<open>double\<close>s. A double is modelled as a finite number, one of
  the two infinities, or NaN. The operators follow IEEE 754 on the special values
  (what \<open>x / 0\<close>, \<open>\<infinity> - \<infinity>\<close>, \<open>0 * \<infinity>\<close> and every operation on NaN give, and that every
  comparison with NaN is false). On finite operands \<open>dadd\<close>, \<open>dsub\<close>, \<open>dmul\<close> and
  \<open>ddiv\<close> compute the exact real result, and the sign of a zero is not kept (a zero
  divisor is read as \<open>+0.0\<close>, the value of the literal \<open>0.0\<close>). The rounding of a finite
  result to 53 bits, with overflow and underflow, is \<open>rd\<close> of the section on binary64
  rounding; the opponent-allowed factor, whose monotonicity depends on it, is modelled
  there with every operation rounded.
\<close>

datatype dbl = Fin real | PInf | NInf | NaN

fun dadd :: "dbl \<Rightarrow> dbl \<Rightarrow> dbl" where
  "dadd NaN b = NaN"
| "dadd a NaN = NaN"
| "dadd (Fin x) (Fin y) = Fin (x + y)"
| "dadd (Fin x) PInf = PInf"
| "dadd (Fin x) NInf = NInf"
| "dadd PInf NInf = NaN"
| "dadd PInf b = PInf"
| "dadd NInf PInf = NaN"
| "dadd NInf b = NInf"

fun dsub :: "dbl \<Rightarrow> dbl \<Rightarrow> dbl" where
  "dsub NaN b = NaN"
| "dsub a NaN = NaN"
| "dsub (Fin x) (Fin y) = Fin (x - y)"
| "dsub (Fin x) PInf = NInf"
| "dsub (Fin x) NInf = PInf"
| "dsub PInf PInf = NaN"
| "dsub PInf b = PInf"
| "dsub NInf NInf = NaN"
| "dsub NInf b = NInf"

fun dmul :: "dbl \<Rightarrow> dbl \<Rightarrow> dbl" where
  "dmul NaN b = NaN"
| "dmul a NaN = NaN"
| "dmul (Fin x) (Fin y) = Fin (x * y)"
| "dmul (Fin x) PInf = (if x = 0 then NaN else if 0 < x then PInf else NInf)"
| "dmul (Fin x) NInf = (if x = 0 then NaN else if 0 < x then NInf else PInf)"
| "dmul PInf (Fin y) = (if y = 0 then NaN else if 0 < y then PInf else NInf)"
| "dmul NInf (Fin y) = (if y = 0 then NaN else if 0 < y then NInf else PInf)"
| "dmul PInf PInf = PInf"
| "dmul PInf NInf = NInf"
| "dmul NInf PInf = NInf"
| "dmul NInf NInf = PInf"

fun ddiv :: "dbl \<Rightarrow> dbl \<Rightarrow> dbl" where
  "ddiv NaN b = NaN"
| "ddiv a NaN = NaN"
| "ddiv (Fin x) (Fin y) =
     (if y = 0 then (if x = 0 then NaN else if 0 < x then PInf else NInf)
      else Fin (x / y))"
| "ddiv (Fin x) b = Fin 0"
| "ddiv PInf (Fin y) = (if 0 \<le> y then PInf else NInf)"
| "ddiv NInf (Fin y) = (if 0 \<le> y then NInf else PInf)"
| "ddiv a b = NaN"

text \<open>The comparisons \<open><\<close>, \<open><=\<close> and \<open>==\<close> of C; \<open>x > y\<close> is \<open>dlt y x\<close>.\<close>

fun dlt :: "dbl \<Rightarrow> dbl \<Rightarrow> bool" where
  "dlt NaN b = False"
| "dlt a NaN = False"
| "dlt (Fin x) (Fin y) = (x < y)"
| "dlt a NInf = False"
| "dlt PInf b = False"
| "dlt a b = True"

fun deq :: "dbl \<Rightarrow> dbl \<Rightarrow> bool" where
  "deq NaN b = False"
| "deq a NaN = False"
| "deq a b = (a = b)"

definition dle :: "dbl \<Rightarrow> dbl \<Rightarrow> bool" where
  "dle a b = (dlt a b \<or> deq a b)"

fun is_fin :: "dbl \<Rightarrow> bool" where
  "is_fin (Fin x) = True"
| "is_fin a = False"

section \<open>Tunable weights and caps\<close>

text \<open>
  The \<open>static const double\<close> block at the head of the source. The model functions read
  these constants; they are passed here as a record so that a property can be stated for
  an edited constant, and \<open>builtin\<close> holds the values the source has.
\<close>

record config =
  W_BASE_LINE :: dbl
  W_BASE_SEASON_AVG :: dbl
  W_HOME_AWAY :: dbl
  W_GAME_TOTAL :: dbl
  W_TEAM_TOTAL :: dbl
  W_DEF_AST_ALLOWED :: dbl
  W_PACE :: dbl
  W_RECENT_FORM :: dbl
  W_MINUTES_TREND :: dbl
  W_BACK_TO_BACK :: dbl
  W_POTENTIAL_AST :: dbl
  LEAGUE_AVG_GAME_TOTAL :: dbl
  LEAGUE_AVG_TEAM_TOTAL :: dbl
  LEAGUE_AVG_PACE :: dbl
  LEAGUE_AVG_AST_ALLOWED :: dbl
  MULT_MIN :: dbl
  MULT_MAX :: dbl

definition builtin :: config where
  "builtin =
     \<lparr> W_BASE_LINE = Fin (55 / 100),
       W_BASE_SEASON_AVG = Fin (45 / 100),
       W_HOME_AWAY = Fin (3 / 100),
       W_GAME_TOTAL = Fin (5 / 100),
       W_TEAM_TOTAL = Fin (10 / 100),
       W_DEF_AST_ALLOWED = Fin (12 / 100),
       W_PACE = Fin (6 / 100),
       W_RECENT_FORM = Fin (8 / 100),
       W_MINUTES_TREND = Fin (10 / 100),
       W_BACK_TO_BACK = Fin (3 / 100),
       W_POTENTIAL_AST = Fin (14 / 100),
       LEAGUE_AVG_GAME_TOTAL = Fin 229,
       LEAGUE_AVG_TEAM_TOTAL = Fin (1145 / 10),
       LEAGUE_AVG_PACE = Fin (995 / 10),
       LEAGUE_AVG_AST_ALLOWED = Fin 25,
       MULT_MIN = Fin (70 / 100),
       MULT_MAX = Fin (140 / 100) \<rparr>"

section \<open>Helpers\<close>

definition clamp :: "dbl \<Rightarrow> dbl \<Rightarrow> dbl \<Rightarrow> dbl" where
  "clamp x lo hi = (if dlt x lo then lo else (if dlt hi x then hi else x))"

section \<open>Inputs and outputs\<close>

text \<open>
  The two structs. \<open>is_home\<close> and \<open>is_back_to_back\<close> are C \<open>int\<close>s that the code only
  tests for being non-zero. The fields of \<open>Output\<close> carry the prefix \<open>o_\<close>, since the
  source names several of them like the function that computes them.
\<close>

record Inputs =
  player_name :: string
  line_ast :: dbl
  season_avg_ast :: dbl
  is_home :: int
  game_total_ou :: dbl
  team_total_ou :: dbl
  opp_ast_allowed :: dbl
  matchup_pace :: dbl
  recent_avg_ast :: dbl
  season_avg_minutes :: dbl
  expected_minutes :: dbl
  is_back_to_back :: int
  last5_potential_ast :: dbl
  last5_conversion :: dbl

record Output =
  o_base_assists :: dbl
  o_m_homeaway :: dbl
  o_m_game_total :: dbl
  o_m_team_total :: dbl
  o_m_def_ast :: dbl
  o_m_pace :: dbl
  o_m_recent :: dbl
  o_m_minutes :: dbl
  o_m_b2b :: dbl
  o_m_potential :: dbl
  o_uncapped_multiplier :: dbl
  o_final_multiplier :: dbl
  o_projection :: dbl

section \<open>Model functions\<close>

definition base_assists :: "config \<Rightarrow> Inputs \<Rightarrow> dbl" where
  "base_assists c i =
     dadd (dmul (W_BASE_LINE c) (line_ast i)) (dmul (W_BASE_SEASON_AVG c) (season_avg_ast i))"

definition m_homeaway :: "config \<Rightarrow> Inputs \<Rightarrow> dbl" where
  "m_homeaway c i =
     (if is_home i \<noteq> 0 then dadd (Fin 1) (W_HOME_AWAY c) else dsub (Fin 1) (W_HOME_AWAY c))"

definition m_game_total :: "config \<Rightarrow> Inputs \<Rightarrow> dbl" where
  "m_game_total c i =
     (let rel = ddiv (dsub (game_total_ou i) (LEAGUE_AVG_GAME_TOTAL c)) (LEAGUE_AVG_GAME_TOTAL c)
      in dadd (Fin 1) (dmul rel (W_GAME_TOTAL c)))"

definition m_team_total :: "config \<Rightarrow> Inputs \<Rightarrow> dbl" where
  "m_team_total c i =
     (let rel = ddiv (dsub (team_total_ou i) (LEAGUE_AVG_TEAM_TOTAL c)) (LEAGUE_AVG_TEAM_TOTAL c)
      in dadd (Fin 1) (dmul rel (W_TEAM_TOTAL c)))"

definition m_def_ast :: "config \<Rightarrow> Inputs \<Rightarrow> dbl" where
  "m_def_ast c i =
     (if dle (LEAGUE_AVG_AST_ALLOWED c) (Fin 0) then Fin 1
      else let rel = ddiv (dsub (opp_ast_allowed i) (LEAGUE_AVG_AST_ALLOWED c))
                          (LEAGUE_AVG_AST_ALLOWED c)
           in dadd (Fin 1) (dmul rel (W_DEF_AST_ALLOWED c)))"

definition m_pace :: "config \<Rightarrow> Inputs \<Rightarrow> dbl" where
  "m_pace c i =
     (if dle (LEAGUE_AVG_PACE c) (Fin 0) then Fin 1
      else let rel = ddiv (dsub (matchup_pace i) (LEAGUE_AVG_PACE c)) (LEAGUE_AVG_PACE c)
           in dadd (Fin 1) (dmul rel (W_PACE c)))"

definition m_recent :: "config \<Rightarrow> Inputs \<Rightarrow> dbl" where
  "m_recent c i =
     (if deq (W_RECENT_FORM c) (Fin 0) \<or> dle (season_avg_ast i) (Fin 0) then Fin 1
      else let rel = ddiv (dsub (recent_avg_ast i) (season_avg_ast i)) (season_avg_ast i)
           in dadd (Fin 1) (dmul rel (W_RECENT_FORM c)))"

definition m_minutes :: "config \<Rightarrow> Inputs \<Rightarrow> dbl" where
  "m_minutes c i =
     (if deq (W_MINUTES_TREND c) (Fin 0) \<or> dle (season_avg_minutes i) (Fin 0) then Fin 1
      else let rel = ddiv (dsub (expected_minutes i) (season_avg_minutes i))
                          (season_avg_minutes i)
           in dadd (Fin 1) (dmul rel (W_MINUTES_TREND c)))"

definition m_b2b :: "config \<Rightarrow> Inputs \<Rightarrow> dbl" where
  "m_b2b c i =
     (if is_back_to_back i \<noteq> 0 \<and> dlt (Fin 0) (W_BACK_TO_BACK c)
      then dsub (Fin 1) (W_BACK_TO_BACK c) else Fin 1)"

definition m_potential_assists :: "config \<Rightarrow> Inputs \<Rightarrow> dbl" where
  "m_potential_assists c i =
     (if deq (W_POTENTIAL_AST c) (Fin 0) \<or> dle (season_avg_ast i) (Fin 0) then Fin 1
      else let expected_actual = dmul (last5_potential_ast i) (last5_conversion i);
               rel = ddiv (dsub expected_actual (season_avg_ast i)) (season_avg_ast i)
           in dadd (Fin 1) (dmul rel (W_POTENTIAL_AST c)))"

definition project :: "config \<Rightarrow> Inputs \<Rightarrow> Output" where
  "project c i =
     (let u = dmul (dmul (dmul (dmul (dmul (dmul (dmul (dmul
                (m_homeaway c i) (m_game_total c i)) (m_team_total c i)) (m_def_ast c i))
                (m_pace c i)) (m_recent c i)) (m_minutes c i)) (m_b2b c i))
                (m_potential_assists c i);
          f = clamp u (MULT_MIN c) (MULT_MAX c)
      in \<lparr> o_base_assists = base_assists c i,
           o_m_homeaway = m_homeaway c i,
           o_m_game_total = m_game_total c i,
           o_m_team_total = m_team_total c i,
           o_m_def_ast = m_def_ast c i,
           o_m_pace = m_pace c i,
           o_m_recent = m_recent c i,
           o_m_minutes = m_minutes c i,
           o_m_b2b = m_b2b c i,
           o_m_potential = m_potential_assists c i,
           o_uncapped_multiplier = u,
           o_final_multiplier = f,
           o_projection = dmul (base_assists c i) f \<rparr>)"

section \<open>Binary64 rounding\<close>

text \<open>
  A finite result of a double operation is the exact result rounded to the nearest
  double, ties to the even significand: 53 significant bits, the least exponent that of
  the subnormals (multiples of \<open>2^-1074\<close>), and an infinity from \<open>2^1024 - 2^970\<close> on.
  \<open>nearest_even\<close> rounds to an integer, \<open>expo\<close> finds the exponent of the last place by
  searching upwards from -1074, and \<open>rnd\<close> rounds a real to a double. \<open>rd\<close> rounds a
  value, so that an operation of the program is \<open>rd\<close> of the exact operation.
\<close>

definition nearest_even :: "real \<Rightarrow> int" where
  "nearest_even x =
     (let f = \<lfloor>x\<rfloor>; d = x - of_int f
      in if d < 1 / 2 then f else if 1 / 2 < d then f + 1 else if even f then f else f + 1)"

fun expo_from :: "nat \<Rightarrow> int \<Rightarrow> real \<Rightarrow> int" where
  "expo_from 0 e x = e"
| "expo_from (Suc n) e x = (if x < 2 powi (e + 53) then e else expo_from n (e + 1) x)"

definition expo :: "real \<Rightarrow> int" where
  "expo x = expo_from 2045 (- 1074) x"

definition threshold :: real where
  "threshold = 2 ^ 1024 - 2 ^ 970"

definition round_finite :: "real \<Rightarrow> real" where
  "round_finite x =
     (let e = expo \<bar>x\<bar> in sgn x * of_int (nearest_even (\<bar>x\<bar> / 2 powi e)) * 2 powi e)"

definition rnd :: "real \<Rightarrow> dbl" where
  "rnd x =
     (if threshold \<le> \<bar>x\<bar> then (if 0 < x then PInf else NInf) else Fin (round_finite x))"





section \<open>Example inputs\<close>

text \<open>
  The record of the specification's first end-to-end example: a home game, every market
  and pace input at its league baseline, recent form and minutes at the season values,
  no back-to-back, 9.0 potential assists converted at 0.5556.
\<close>

definition example_input :: Inputs where
  "example_input =
     \<lparr> player_name = ''Player'',
       line_ast = Fin 5,
       season_avg_ast = Fin 5,
       is_home = 1,
       game_total_ou = Fin 229,
       team_total_ou = Fin (1145 / 10),
       opp_ast_allowed = Fin 25,
       matchup_pace = Fin (995 / 10),
       recent_avg_ast = Fin 5,
       season_avg_minutes = Fin 32,
       expected_minutes = Fin 32,
       is_back_to_back = 0,
       last5_potential_ast = Fin 9,
       last5_conversion = Fin (5556 / 10000) \<rparr>"

text \<open>The same record with 10 potential assists converted at 0.5, which is 5.0 exactly.\<close>

definition neutral_input :: Inputs where
  "neutral_input = example_input\<lparr>last5_potential_ast := Fin 10, last5_conversion := Fin (1 / 2)\<rparr>"

text \<open>The built-in constants with every one of the nine factor weights set to zero.\<close>

definition zero_weights :: config where
  "zero_weights =
     builtin\<lparr> W_HOME_AWAY := Fin 0, W_GAME_TOTAL := Fin 0, W_TEAM_TOTAL := Fin 0,
              W_DEF_AST_ALLOWED := Fin 0, W_PACE := Fin 0, W_RECENT_FORM := Fin 0,
              W_MINUTES_TREND := Fin 0, W_BACK_TO_BACK := Fin 0, W_POTENTIAL_AST := Fin 0 \<rparr>"

text \<open>An away game on a back-to-back with every observed value off its baseline.\<close>

definition busy_input :: Inputs where
  "busy_input =
     \<lparr> player_name = ''Guard'',
       line_ast = Fin (75 / 10),
       season_avg_ast = Fin 8,
       is_home = 0,
       game_total_ou = Fin 240,
       team_total_ou = Fin 120,
       opp_ast_allowed = Fin 27,
       matchup_pace = Fin 102,
       recent_avg_ast = Fin 9,
       season_avg_minutes = Fin 34,
       expected_minutes = Fin 36,
       is_back_to_back = 1,
       last5_potential_ast = Fin 15,
       last5_conversion = Fin (6 / 10) \<rparr>"

section \<open>Facts about the double operators\<close>

lemmas factor_defs = base_assists_def m_homeaway_def m_game_total_def m_team_total_def
  m_def_ast_def m_pace_def m_recent_def m_minutes_def m_b2b_def m_potential_assists_def

lemma dlt_NaN_right [simp]: "dlt a NaN = False"
  by (cases a) simp_all

lemma deq_NaN_right [simp]: "deq a NaN = False"
  by (cases a) simp_all

lemma dle_Fin [simp]: "dle (Fin x) (Fin y) = (x \<le> y)"
  by (auto simp: dle_def)

lemma dle_NaN [simp]: "dle NaN b = False" "dle a NaN = False"
  by (simp_all add: dle_def)

lemma clamp_range:
  assumes "dle lo hi" and "x \<noteq> NaN"
  shows "dle lo (clamp x lo hi) \<and> dle (clamp x lo hi) hi"
  using assms by (cases x; cases lo; cases hi) (auto simp: clamp_def dle_def)

section \<open>Facts about rounding\<close>















lemma round_finite_0 [simp]: "round_finite 0 = 0"
  by (simp add: round_finite_def)



lemma threshold_pos: "0 < threshold"
  by (simp add: threshold_def)


lemma rnd_0 [simp]: "rnd 0 = Fin 0"
  using threshold_pos by (simp add: rnd_def)











lemma rnd_not_NaN [simp]: "rnd x \<noteq> NaN"
  by (simp add: rnd_def)











section \<open>The claims\<close>

text \<open>
  C1, as the code has it. The home/away factor is \<open>1 + W_HOME_AWAY\<close> or
  \<open>1 - W_HOME_AWAY\<close> and has no neutral input. When every other contextual input is at its
  neutral value and the season average and season minutes are finite, the other eight
  factors are exactly 1.0, the uncapped and the final multiplier are the home/away factor
  (1.03 at home, 0.97 away), and the projection is the base value times that factor.
\<close>

theorem neutral_inputs_leave_homeaway:
  assumes "game_total_ou i = LEAGUE_AVG_GAME_TOTAL builtin"
    and "team_total_ou i = LEAGUE_AVG_TEAM_TOTAL builtin"
    and "opp_ast_allowed i = LEAGUE_AVG_AST_ALLOWED builtin"
    and "matchup_pace i = LEAGUE_AVG_PACE builtin"
    and "recent_avg_ast i = season_avg_ast i"
    and "expected_minutes i = season_avg_minutes i"
    and "is_back_to_back i = 0"
    and "dmul (last5_potential_ast i) (last5_conversion i) = season_avg_ast i"
    and "is_fin (season_avg_ast i)"
    and "is_fin (season_avg_minutes i)"
  shows "o_m_game_total (project builtin i) = Fin 1
         \<and> o_m_team_total (project builtin i) = Fin 1
         \<and> o_m_def_ast (project builtin i) = Fin 1
         \<and> o_m_pace (project builtin i) = Fin 1
         \<and> o_m_recent (project builtin i) = Fin 1
         \<and> o_m_minutes (project builtin i) = Fin 1
         \<and> o_m_b2b (project builtin i) = Fin 1
         \<and> o_m_potential (project builtin i) = Fin 1
         \<and> o_m_homeaway (project builtin i)
             = (if is_home i \<noteq> 0 then Fin (103 / 100) else Fin (97 / 100))
         \<and> o_uncapped_multiplier (project builtin i) = o_m_homeaway (project builtin i)
         \<and> o_final_multiplier (project builtin i) = o_m_homeaway (project builtin i)
         \<and> o_projection (project builtin i)
             = dmul (o_base_assists (project builtin i)) (o_m_homeaway (project builtin i))"
proof -
  obtain s where s: "season_avg_ast i = Fin s"
    using assms(9) by (cases "season_avg_ast i") simp_all
  obtain m where m: "season_avg_minutes i = Fin m"
    using assms(10) by (cases "season_avg_minutes i") simp_all
  have game: "m_game_total builtin i = Fin 1"
    using assms(1) by (simp add: m_game_total_def builtin_def)
  have team: "m_team_total builtin i = Fin 1"
    using assms(2) by (simp add: m_team_total_def builtin_def)
  have opp: "m_def_ast builtin i = Fin 1"
    using assms(3) by (simp add: m_def_ast_def builtin_def)
  have pace: "m_pace builtin i = Fin 1"
    using assms(4) by (simp add: m_pace_def builtin_def)
  have recent: "m_recent builtin i = Fin 1"
    using assms(5) s by (simp add: m_recent_def builtin_def)
  have minutes: "m_minutes builtin i = Fin 1"
    using assms(6) m by (simp add: m_minutes_def builtin_def)
  have b2b: "m_b2b builtin i = Fin 1"
    using assms(7) by (simp add: m_b2b_def)
  have potential: "m_potential_assists builtin i = Fin 1"
    using assms(8) s by (simp add: m_potential_assists_def builtin_def)
  have home: "m_homeaway builtin i = (if is_home i \<noteq> 0 then Fin (103 / 100) else Fin (97 / 100))"
    by (simp add: m_homeaway_def builtin_def)
  have caps: "MULT_MIN builtin = Fin (70 / 100)" "MULT_MAX builtin = Fin (140 / 100)"
    by (simp_all add: builtin_def)
  show ?thesis
    unfolding project_def Let_def
    by (simp add: game team opp pace recent minutes b2b potential home caps clamp_def)
qed

theorem neutral_inputs_leave_homeaway_witness:
  "game_total_ou (neutral_input\<lparr>is_home := 0\<rparr>) = LEAGUE_AVG_GAME_TOTAL builtin
   \<and> team_total_ou (neutral_input\<lparr>is_home := 0\<rparr>) = LEAGUE_AVG_TEAM_TOTAL builtin
   \<and> opp_ast_allowed (neutral_input\<lparr>is_home := 0\<rparr>) = LEAGUE_AVG_AST_ALLOWED builtin
   \<and> matchup_pace (neutral_input\<lparr>is_home := 0\<rparr>) = LEAGUE_AVG_PACE builtin
   \<and> recent_avg_ast (neutral_input\<lparr>is_home := 0\<rparr>) = season_avg_ast (neutral_input\<lparr>is_home := 0\<rparr>)
   \<and> expected_minutes (neutral_input\<lparr>is_home := 0\<rparr>)
       = season_avg_minutes (neutral_input\<lparr>is_home := 0\<rparr>)
   \<and> is_back_to_back (neutral_input\<lparr>is_home := 0\<rparr>) = 0
   \<and> dmul (last5_potential_ast (neutral_input\<lparr>is_home := 0\<rparr>))
           (last5_conversion (neutral_input\<lparr>is_home := 0\<rparr>))
       = season_avg_ast (neutral_input\<lparr>is_home := 0\<rparr>)
   \<and> is_fin (season_avg_ast (neutral_input\<lparr>is_home := 0\<rparr>))
   \<and> is_fin (season_avg_minutes (neutral_input\<lparr>is_home := 0\<rparr>))
   \<and> o_uncapped_multiplier (project builtin (neutral_input\<lparr>is_home := 0\<rparr>)) = Fin (97 / 100)
   \<and> o_final_multiplier (project builtin (neutral_input\<lparr>is_home := 0\<rparr>)) = Fin (97 / 100)
   \<and> o_projection (project builtin (neutral_input\<lparr>is_home := 0\<rparr>)) = Fin (485 / 100)"
proof -
  have h: "game_total_ou (neutral_input\<lparr>is_home := 0\<rparr>) = LEAGUE_AVG_GAME_TOTAL builtin"
    "team_total_ou (neutral_input\<lparr>is_home := 0\<rparr>) = LEAGUE_AVG_TEAM_TOTAL builtin"
    "opp_ast_allowed (neutral_input\<lparr>is_home := 0\<rparr>) = LEAGUE_AVG_AST_ALLOWED builtin"
    "matchup_pace (neutral_input\<lparr>is_home := 0\<rparr>) = LEAGUE_AVG_PACE builtin"
    "recent_avg_ast (neutral_input\<lparr>is_home := 0\<rparr>) = season_avg_ast (neutral_input\<lparr>is_home := 0\<rparr>)"
    "expected_minutes (neutral_input\<lparr>is_home := 0\<rparr>)
       = season_avg_minutes (neutral_input\<lparr>is_home := 0\<rparr>)"
    "is_back_to_back (neutral_input\<lparr>is_home := 0\<rparr>) = 0"
    "dmul (last5_potential_ast (neutral_input\<lparr>is_home := 0\<rparr>))
          (last5_conversion (neutral_input\<lparr>is_home := 0\<rparr>))
       = season_avg_ast (neutral_input\<lparr>is_home := 0\<rparr>)"
    "is_fin (season_avg_ast (neutral_input\<lparr>is_home := 0\<rparr>))"
    "is_fin (season_avg_minutes (neutral_input\<lparr>is_home := 0\<rparr>))"
    by (simp_all add: neutral_input_def example_input_def builtin_def)
  have b: "base_assists builtin (neutral_input\<lparr>is_home := 0\<rparr>) = Fin 5"
    by (simp add: base_assists_def neutral_input_def example_input_def builtin_def)
  have o: "o_base_assists (project builtin (neutral_input\<lparr>is_home := 0\<rparr>)) = Fin 5"
    by (simp add: project_def Let_def b)
  from neutral_inputs_leave_homeaway [OF h] h o show ?thesis by simp
qed

text \<open>
  C1 as stated fails: on the neutral home-game input every hypothesis holds, yet the
  uncapped multiplier is 1.03, not 1.0, and the projection is 5.15 where the base value
  is 5.0.
\<close>

theorem neutral_inputs_counterexample:
  "game_total_ou neutral_input = LEAGUE_AVG_GAME_TOTAL builtin
   \<and> team_total_ou neutral_input = LEAGUE_AVG_TEAM_TOTAL builtin
   \<and> opp_ast_allowed neutral_input = LEAGUE_AVG_AST_ALLOWED builtin
   \<and> matchup_pace neutral_input = LEAGUE_AVG_PACE builtin
   \<and> recent_avg_ast neutral_input = season_avg_ast neutral_input
   \<and> expected_minutes neutral_input = season_avg_minutes neutral_input
   \<and> is_back_to_back neutral_input = 0
   \<and> dmul (last5_potential_ast neutral_input) (last5_conversion neutral_input)
       = season_avg_ast neutral_input
   \<and> o_uncapped_multiplier (project builtin neutral_input) = Fin (103 / 100)
   \<and> o_uncapped_multiplier (project builtin neutral_input) \<noteq> Fin 1
   \<and> o_base_assists (project builtin neutral_input) = Fin 5
   \<and> o_projection (project builtin neutral_input) = Fin (515 / 100)
   \<and> o_projection (project builtin neutral_input) \<noteq> o_base_assists (project builtin neutral_input)"
  by (simp add: project_def factor_defs builtin_def neutral_input_def example_input_def
      clamp_def Let_def)

text \<open>
  C2, as the code has it. \<open>clamp\<close> compares with \<open><\<close> and \<open>>\<close>, which are both false on
  NaN, so it hands a NaN through. With \<open>MULT_MIN <= MULT_MAX\<close> (0.70 and 1.40 in the
  source): whenever the uncapped multiplier is a number or an infinity, the final
  multiplier lies in the closed interval from \<open>MULT_MIN\<close> to \<open>MULT_MAX\<close>; when it is NaN,
  so is the final multiplier.
\<close>

theorem final_multiplier_in_range:
  assumes "dle (MULT_MIN c) (MULT_MAX c)"
  shows "(o_uncapped_multiplier (project c i) \<noteq> NaN \<longrightarrow>
            dle (MULT_MIN c) (o_final_multiplier (project c i))
            \<and> dle (o_final_multiplier (project c i)) (MULT_MAX c))
         \<and> (o_uncapped_multiplier (project c i) = NaN \<longrightarrow>
               o_final_multiplier (project c i) = NaN)"
proof -
  have final: "o_final_multiplier (project c i) =
          clamp (o_uncapped_multiplier (project c i)) (MULT_MIN c) (MULT_MAX c)"
    by (simp add: project_def Let_def)
  have "o_final_multiplier (project c i) = NaN"
    if "o_uncapped_multiplier (project c i) = NaN"
    unfolding final that by (simp add: clamp_def)
  moreover have "dle (MULT_MIN c) (o_final_multiplier (project c i))
      \<and> dle (o_final_multiplier (project c i)) (MULT_MAX c)"
    if "o_uncapped_multiplier (project c i) \<noteq> NaN"
    unfolding final using clamp_range [OF assms that] .
  ultimately show ?thesis by blast
qed

theorem final_multiplier_in_range_witness:
  "dle (MULT_MIN builtin) (MULT_MAX builtin)
   \<and> o_uncapped_multiplier (project builtin (busy_input\<lparr>game_total_ou := Fin 100000\<rparr>)) \<noteq> NaN
   \<and> dle (MULT_MIN builtin)
          (o_final_multiplier (project builtin (busy_input\<lparr>game_total_ou := Fin 100000\<rparr>)))
   \<and> dle (o_final_multiplier (project builtin (busy_input\<lparr>game_total_ou := Fin 100000\<rparr>)))
          (MULT_MAX builtin)
   \<and> o_final_multiplier (project builtin (busy_input\<lparr>game_total_ou := Fin 100000\<rparr>))
       = Fin (140 / 100)
   \<and> o_uncapped_multiplier (project builtin (busy_input\<lparr>matchup_pace := NaN\<rparr>)) = NaN
   \<and> o_final_multiplier (project builtin (busy_input\<lparr>matchup_pace := NaN\<rparr>)) = NaN"
proof -
  have 1: "dle (MULT_MIN builtin) (MULT_MAX builtin)"
    by (simp add: builtin_def)
  have 2: "o_uncapped_multiplier (project builtin (busy_input\<lparr>game_total_ou := Fin 100000\<rparr>))
             \<noteq> NaN"
    by (simp add: project_def factor_defs builtin_def busy_input_def Let_def)
  have 3: "o_final_multiplier (project builtin (busy_input\<lparr>game_total_ou := Fin 100000\<rparr>))
             = Fin (140 / 100)"
    by (simp add: project_def factor_defs builtin_def busy_input_def clamp_def Let_def)
  have 4: "o_uncapped_multiplier (project builtin (busy_input\<lparr>matchup_pace := NaN\<rparr>)) = NaN"
    by (simp add: project_def factor_defs builtin_def busy_input_def Let_def)
  from final_multiplier_in_range [OF 1, where i = "busy_input\<lparr>game_total_ou := Fin 100000\<rparr>"]
    final_multiplier_in_range [OF 1, where i = "busy_input\<lparr>matchup_pace := NaN\<rparr>"]
    1 2 3 4
  show ?thesis by simp
qed

text \<open>
  C2 as stated fails: a NaN in one observed value (\<open>scanf\<close> reads \<open>nan\<close> into a double) makes
  the game-total factor, the product and the final multiplier NaN, which is not in
  the interval from 0.70 to 1.40.
\<close>

theorem final_multiplier_nan_counterexample:
  "o_final_multiplier (project builtin (example_input\<lparr>game_total_ou := NaN\<rparr>)) = NaN
   \<and> \<not> (dle (MULT_MIN builtin)
             (o_final_multiplier (project builtin (example_input\<lparr>game_total_ou := NaN\<rparr>)))
         \<and> dle (o_final_multiplier (project builtin (example_input\<lparr>game_total_ou := NaN\<rparr>)))
               (MULT_MAX builtin))"
  by (simp add: project_def factor_defs builtin_def example_input_def clamp_def Let_def)

text \<open>
  C3 fails on the code. \<open>m_def_ast\<close> and \<open>m_pace\<close> return 1.0 when their league
  baseline is zero or negative; \<open>m_game_total\<close> and \<open>m_team_total\<close> divide by theirs
  unguarded. With the game-total (or team-total) baseline edited to 0.0, the example input
  gives \<open>229.0 / 0.0\<close>: the factor and the uncapped multiplier are +Infinity, and with an
  observed total of 0.0 the division is \<open>0.0 / 0.0\<close> and the projection is NaN.
\<close>

theorem unguarded_total_baselines:
  "m_game_total (builtin\<lparr>LEAGUE_AVG_GAME_TOTAL := Fin 0\<rparr>) example_input = PInf
   \<and> m_team_total (builtin\<lparr>LEAGUE_AVG_TEAM_TOTAL := Fin 0\<rparr>) example_input = PInf
   \<and> o_uncapped_multiplier (project (builtin\<lparr>LEAGUE_AVG_GAME_TOTAL := Fin 0\<rparr>) example_input)
       = PInf
   \<and> o_uncapped_multiplier (project (builtin\<lparr>LEAGUE_AVG_TEAM_TOTAL := Fin 0\<rparr>) example_input)
       = PInf
   \<and> o_projection (project (builtin\<lparr>LEAGUE_AVG_GAME_TOTAL := Fin 0\<rparr>)
                            (example_input\<lparr>game_total_ou := Fin 0\<rparr>)) = NaN
   \<and> o_projection (project (builtin\<lparr>LEAGUE_AVG_TEAM_TOTAL := Fin 0\<rparr>)
                            (example_input\<lparr>team_total_ou := Fin 0\<rparr>)) = NaN
   \<and> m_def_ast (builtin\<lparr>LEAGUE_AVG_AST_ALLOWED := Fin 0\<rparr>) example_input = Fin 1
   \<and> m_pace (builtin\<lparr>LEAGUE_AVG_PACE := Fin 0\<rparr>) example_input = Fin 1"
  by (simp add: project_def factor_defs builtin_def example_input_def clamp_def Let_def)

text \<open>
  C4, as the code has it. On the example input the base value is 5.0 and seven factors
  are exactly 1.0; the potential-conversion factor is 1.0000112 (9.0 times 0.5556 is
  5.0004), the home/away factor is 1.03, the uncapped and final multipliers are
  1.030011536 and the projection is 5.15005768.
\<close>

theorem example_projection:
  "project builtin example_input =
     \<lparr> o_base_assists = Fin 5,
       o_m_homeaway = Fin (103 / 100),
       o_m_game_total = Fin 1,
       o_m_team_total = Fin 1,
       o_m_def_ast = Fin 1,
       o_m_pace = Fin 1,
       o_m_recent = Fin 1,
       o_m_minutes = Fin 1,
       o_m_b2b = Fin 1,
       o_m_potential = Fin (10000112 / 10000000),
       o_uncapped_multiplier = Fin (1030011536 / 1000000000),
       o_final_multiplier = Fin (1030011536 / 1000000000),
       o_projection = Fin (515005768 / 100000000) \<rparr>"
  by (simp add: project_def factor_defs builtin_def example_input_def clamp_def Let_def)

text \<open>
  C4 as stated fails: the home/away factor of the example is above 1.0299 and the
  projection is above 5.15, which the report prints as 1.0300 and 5.15, not 1.0 and 5.0.
\<close>

theorem example_projection_counterexample:
  "dlt (Fin (10299 / 10000)) (o_m_homeaway (project builtin example_input))
   \<and> dlt (Fin (515 / 100)) (o_projection (project builtin example_input))"
  by (simp add: project_def factor_defs builtin_def example_input_def clamp_def Let_def)

text \<open>
  C5, as the code has it. A zero weight makes the home/away, recent-form, minutes-trend,
  back-to-back and potential-conversion factors exactly 1.0 for every input: the first
  adds or subtracts zero and the other four test the weight. The game-total, team-total,
  opponent-allowed and pace factors have no test of the weight and multiply the relative
  deviation by it, so with the built-in baseline they are exactly 1.0 for every finite
  observed value.
\<close>

theorem zero_weight_neutral:
  "(W_HOME_AWAY c = Fin 0 \<longrightarrow> m_homeaway c i = Fin 1)
   \<and> (W_RECENT_FORM c = Fin 0 \<longrightarrow> m_recent c i = Fin 1)
   \<and> (W_MINUTES_TREND c = Fin 0 \<longrightarrow> m_minutes c i = Fin 1)
   \<and> (W_BACK_TO_BACK c = Fin 0 \<longrightarrow> m_b2b c i = Fin 1)
   \<and> (W_POTENTIAL_AST c = Fin 0 \<longrightarrow> m_potential_assists c i = Fin 1)
   \<and> (W_GAME_TOTAL c = Fin 0 \<and> LEAGUE_AVG_GAME_TOTAL c = LEAGUE_AVG_GAME_TOTAL builtin
        \<and> is_fin (game_total_ou i) \<longrightarrow> m_game_total c i = Fin 1)
   \<and> (W_TEAM_TOTAL c = Fin 0 \<and> LEAGUE_AVG_TEAM_TOTAL c = LEAGUE_AVG_TEAM_TOTAL builtin
        \<and> is_fin (team_total_ou i) \<longrightarrow> m_team_total c i = Fin 1)
   \<and> (W_DEF_AST_ALLOWED c = Fin 0 \<and> LEAGUE_AVG_AST_ALLOWED c = LEAGUE_AVG_AST_ALLOWED builtin
        \<and> is_fin (opp_ast_allowed i) \<longrightarrow> m_def_ast c i = Fin 1)
   \<and> (W_PACE c = Fin 0 \<and> LEAGUE_AVG_PACE c = LEAGUE_AVG_PACE builtin
        \<and> is_fin (matchup_pace i) \<longrightarrow> m_pace c i = Fin 1)"
proof -
  have game: "m_game_total c i = Fin 1"
    if "W_GAME_TOTAL c = Fin 0" "LEAGUE_AVG_GAME_TOTAL c = LEAGUE_AVG_GAME_TOTAL builtin"
      "is_fin (game_total_ou i)"
    using that by (cases "game_total_ou i") (simp_all add: m_game_total_def builtin_def)
  have team: "m_team_total c i = Fin 1"
    if "W_TEAM_TOTAL c = Fin 0" "LEAGUE_AVG_TEAM_TOTAL c = LEAGUE_AVG_TEAM_TOTAL builtin"
      "is_fin (team_total_ou i)"
    using that by (cases "team_total_ou i") (simp_all add: m_team_total_def builtin_def)
  have opp: "m_def_ast c i = Fin 1"
    if "W_DEF_AST_ALLOWED c = Fin 0" "LEAGUE_AVG_AST_ALLOWED c = LEAGUE_AVG_AST_ALLOWED builtin"
      "is_fin (opp_ast_allowed i)"
    using that by (cases "opp_ast_allowed i") (simp_all add: m_def_ast_def builtin_def)
  have pace: "m_pace c i = Fin 1"
    if "W_PACE c = Fin 0" "LEAGUE_AVG_PACE c = LEAGUE_AVG_PACE builtin"
      "is_fin (matchup_pace i)"
    using that by (cases "matchup_pace i") (simp_all add: m_pace_def builtin_def)
  have guarded: "W_HOME_AWAY c = Fin 0 \<longrightarrow> m_homeaway c i = Fin 1"
    "W_RECENT_FORM c = Fin 0 \<longrightarrow> m_recent c i = Fin 1"
    "W_MINUTES_TREND c = Fin 0 \<longrightarrow> m_minutes c i = Fin 1"
    "W_BACK_TO_BACK c = Fin 0 \<longrightarrow> m_b2b c i = Fin 1"
    "W_POTENTIAL_AST c = Fin 0 \<longrightarrow> m_potential_assists c i = Fin 1"
    by (simp_all add: m_homeaway_def m_recent_def m_minutes_def m_b2b_def
        m_potential_assists_def)
  from guarded game team opp pace show ?thesis by blast
qed

theorem zero_weight_neutral_witness:
  "W_HOME_AWAY zero_weights = Fin 0 \<and> m_homeaway zero_weights busy_input = Fin 1
   \<and> W_RECENT_FORM zero_weights = Fin 0 \<and> m_recent zero_weights busy_input = Fin 1
   \<and> W_MINUTES_TREND zero_weights = Fin 0 \<and> m_minutes zero_weights busy_input = Fin 1
   \<and> W_BACK_TO_BACK zero_weights = Fin 0 \<and> m_b2b zero_weights busy_input = Fin 1
   \<and> W_POTENTIAL_AST zero_weights = Fin 0 \<and> m_potential_assists zero_weights busy_input = Fin 1
   \<and> W_GAME_TOTAL zero_weights = Fin 0
   \<and> LEAGUE_AVG_GAME_TOTAL zero_weights = LEAGUE_AVG_GAME_TOTAL builtin
   \<and> is_fin (game_total_ou busy_input) \<and> m_game_total zero_weights busy_input = Fin 1
   \<and> W_TEAM_TOTAL zero_weights = Fin 0
   \<and> LEAGUE_AVG_TEAM_TOTAL zero_weights = LEAGUE_AVG_TEAM_TOTAL builtin
   \<and> is_fin (team_total_ou busy_input) \<and> m_team_total zero_weights busy_input = Fin 1
   \<and> W_DEF_AST_ALLOWED zero_weights = Fin 0
   \<and> LEAGUE_AVG_AST_ALLOWED zero_weights = LEAGUE_AVG_AST_ALLOWED builtin
   \<and> is_fin (opp_ast_allowed busy_input) \<and> m_def_ast zero_weights busy_input = Fin 1
   \<and> W_PACE zero_weights = Fin 0
   \<and> LEAGUE_AVG_PACE zero_weights = LEAGUE_AVG_PACE builtin
   \<and> is_fin (matchup_pace busy_input) \<and> m_pace zero_weights busy_input = Fin 1"
  using zero_weight_neutral [where c = zero_weights and i = busy_input]
  by (simp add: zero_weights_def busy_input_def)

text \<open>
  C5 as stated fails for the factors without a test of the weight: with the game-total
  weight set to zero and an infinite observed game total (\<open>scanf\<close> reads \<open>inf\<close> into a
  double), the relative deviation is +Infinity, its product with zero is NaN, and so is
  the factor.
\<close>

theorem zero_weight_infinite_total_counterexample:
  "W_GAME_TOTAL (builtin\<lparr>W_GAME_TOTAL := Fin 0\<rparr>) = Fin 0
   \<and> m_game_total (builtin\<lparr>W_GAME_TOTAL := Fin 0\<rparr>) (example_input\<lparr>game_total_ou := PInf\<rparr>) = NaN
   \<and> m_game_total (builtin\<lparr>W_GAME_TOTAL := Fin 0\<rparr>) (example_input\<lparr>game_total_ou := PInf\<rparr>)
       \<noteq> Fin 1"
  by (simp add: m_game_total_def builtin_def example_input_def)

text \<open>
  C6. A season average that is zero or negative makes the recent-form factor and the
  potential-conversion factor exactly 1.0. The minutes-trend factor does not read the
  season average at all: it is 1.0 when its own baseline, the season minutes, is zero or
  negative.
\<close>

theorem nonpositive_season_average:
  "(dle (season_avg_ast i) (Fin 0) \<longrightarrow>
      m_recent c i = Fin 1 \<and> m_potential_assists c i = Fin 1)
   \<and> (dle (season_avg_minutes i) (Fin 0) \<longrightarrow> m_minutes c i = Fin 1)
   \<and> m_minutes c (i\<lparr>season_avg_ast := s\<rparr>) = m_minutes c i"
  by (simp add: m_recent_def m_potential_assists_def m_minutes_def)

theorem nonpositive_season_average_witness:
  "dle (season_avg_ast (busy_input\<lparr>season_avg_ast := Fin 0\<rparr>)) (Fin 0)
   \<and> m_recent builtin (busy_input\<lparr>season_avg_ast := Fin 0\<rparr>) = Fin 1
   \<and> m_potential_assists builtin (busy_input\<lparr>season_avg_ast := Fin 0\<rparr>) = Fin 1
   \<and> m_minutes builtin (busy_input\<lparr>season_avg_ast := Fin 0\<rparr>) = m_minutes builtin busy_input
   \<and> m_minutes builtin (busy_input\<lparr>season_avg_ast := Fin 0\<rparr>) = Fin (171 / 170)
   \<and> dle (season_avg_minutes (busy_input\<lparr>season_avg_minutes := Fin (- 1)\<rparr>)) (Fin 0)
   \<and> m_minutes builtin (busy_input\<lparr>season_avg_minutes := Fin (- 1)\<rparr>) = Fin 1"
  using nonpositive_season_average
      [where i = "busy_input\<lparr>season_avg_ast := Fin 0\<rparr>" and c = builtin and s = "Fin 8"]
    nonpositive_season_average
      [where i = "busy_input\<lparr>season_avg_minutes := Fin (- 1)\<rparr>" and c = builtin and s = "Fin 8"]
    nonpositive_season_average [where i = busy_input and c = builtin and s = "Fin 0"]
  by (simp add: busy_input_def m_minutes_def builtin_def)




text \<open>
  C8. \<open>project\<close> does not read the player name: two input records whose numeric and
  boolean fields are equal give the same output record, whatever their names are. Being a
  function of the constants and the record, it is deterministic.
\<close>

theorem project_ignores_player_name:
  assumes "j = i\<lparr>player_name := n\<rparr>"
  shows "project c j = project c i"
  using assms by (simp add: project_def factor_defs Let_def)

theorem project_ignores_player_name_witness:
  "busy_input\<lparr>player_name := ''Center''\<rparr> = busy_input\<lparr>player_name := ''Center''\<rparr>
   \<and> player_name (busy_input\<lparr>player_name := ''Center''\<rparr>) \<noteq> player_name busy_input
   \<and> project builtin (busy_input\<lparr>player_name := ''Center''\<rparr>) = project builtin busy_input"
  using project_ignores_player_name
      [where j = "busy_input\<lparr>player_name := ''Center''\<rparr>" and i = busy_input
         and n = "''Center''" and c = builtin]
  by (simp add: busy_input_def)

text \<open>
  C9. With the built-in weight 0.03 the home/away factor is exactly 1.03 for a home game
  (\<open>is_home\<close> non-zero) and exactly 0.97 otherwise. It is never 1.0, and it is the value
  that \<open>project\<close> stores and the first operand of the product that \<open>project\<close> stores as
  the uncapped multiplier: the product of that factor with the other eight, in the order
  of the source.
\<close>

theorem homeaway_never_neutral:
  "(is_home i \<noteq> 0 \<longrightarrow> m_homeaway builtin i = Fin (103 / 100))
   \<and> (is_home i = 0 \<longrightarrow> m_homeaway builtin i = Fin (97 / 100))
   \<and> m_homeaway builtin i \<noteq> Fin 1
   \<and> o_m_homeaway (project builtin i) = m_homeaway builtin i
   \<and> o_uncapped_multiplier (project builtin i) =
       dmul (dmul (dmul (dmul (dmul (dmul (dmul (dmul
         (m_homeaway builtin i)
         (o_m_game_total (project builtin i))) (o_m_team_total (project builtin i)))
         (o_m_def_ast (project builtin i))) (o_m_pace (project builtin i)))
         (o_m_recent (project builtin i))) (o_m_minutes (project builtin i)))
         (o_m_b2b (project builtin i))) (o_m_potential (project builtin i))"
proof -
  have "(is_home i \<noteq> 0 \<longrightarrow> m_homeaway builtin i = Fin (103 / 100))
      \<and> (is_home i = 0 \<longrightarrow> m_homeaway builtin i = Fin (97 / 100))
      \<and> m_homeaway builtin i \<noteq> Fin 1"
    by (simp add: m_homeaway_def builtin_def)
  moreover have "o_m_homeaway (project builtin i) = m_homeaway builtin i"
    by (simp add: project_def Let_def)
  moreover have "o_uncapped_multiplier (project builtin i) =
       dmul (dmul (dmul (dmul (dmul (dmul (dmul (dmul
         (m_homeaway builtin i)
         (o_m_game_total (project builtin i))) (o_m_team_total (project builtin i)))
         (o_m_def_ast (project builtin i))) (o_m_pace (project builtin i)))
         (o_m_recent (project builtin i))) (o_m_minutes (project builtin i)))
         (o_m_b2b (project builtin i))) (o_m_potential (project builtin i))"
    by (simp add: project_def Let_def)
  ultimately show ?thesis by blast
qed

theorem homeaway_never_neutral_witness:
  "is_home example_input \<noteq> 0 \<and> m_homeaway builtin example_input = Fin (103 / 100)
   \<and> is_home busy_input = 0 \<and> m_homeaway builtin busy_input = Fin (97 / 100)
   \<and> o_uncapped_multiplier (project builtin neutral_input)
       = Fin (103 / 100)
   \<and> o_uncapped_multiplier (project builtin (neutral_input\<lparr>is_home := 0\<rparr>))
       = Fin (97 / 100)"
proof -
  have n: "is_home neutral_input \<noteq> 0" "is_home (neutral_input\<lparr>is_home := 0\<rparr>) = 0"
    by (simp_all add: neutral_input_def example_input_def)
  have f: "o_m_game_total (project builtin j) = Fin 1 \<and> o_m_team_total (project builtin j) = Fin 1
      \<and> o_m_def_ast (project builtin j) = Fin 1 \<and> o_m_pace (project builtin j) = Fin 1
      \<and> o_m_recent (project builtin j) = Fin 1 \<and> o_m_minutes (project builtin j) = Fin 1
      \<and> o_m_b2b (project builtin j) = Fin 1 \<and> o_m_potential (project builtin j) = Fin 1"
    if "j = neutral_input \<or> j = neutral_input\<lparr>is_home := 0\<rparr>" for j
    using that
    by (auto simp: project_def factor_defs builtin_def neutral_input_def example_input_def
        Let_def)
  from homeaway_never_neutral [where i = example_input]
    homeaway_never_neutral [where i = busy_input]
    homeaway_never_neutral [where i = neutral_input]
    homeaway_never_neutral [where i = "neutral_input\<lparr>is_home := 0\<rparr>"]
    n f [of neutral_input] f [of "neutral_input\<lparr>is_home := 0\<rparr>"]
  show ?thesis
    by (simp add: example_input_def busy_input_def)
qed

text \<open>
  C10. Two input records that differ only in \<open>is_home\<close> give outputs that agree on the
  base value and on the eight factors other than the home/away factor.
\<close>

theorem is_home_frame:
  "o_base_assists (project c (i\<lparr>is_home := h\<rparr>)) = o_base_assists (project c i)
   \<and> o_m_game_total (project c (i\<lparr>is_home := h\<rparr>)) = o_m_game_total (project c i)
   \<and> o_m_team_total (project c (i\<lparr>is_home := h\<rparr>)) = o_m_team_total (project c i)
   \<and> o_m_def_ast (project c (i\<lparr>is_home := h\<rparr>)) = o_m_def_ast (project c i)
   \<and> o_m_pace (project c (i\<lparr>is_home := h\<rparr>)) = o_m_pace (project c i)
   \<and> o_m_recent (project c (i\<lparr>is_home := h\<rparr>)) = o_m_recent (project c i)
   \<and> o_m_minutes (project c (i\<lparr>is_home := h\<rparr>)) = o_m_minutes (project c i)
   \<and> o_m_b2b (project c (i\<lparr>is_home := h\<rparr>)) = o_m_b2b (project c i)
   \<and> o_m_potential (project c (i\<lparr>is_home := h\<rparr>)) = o_m_potential (project c i)"
  by (simp add: project_def factor_defs Let_def)

end
